theory Spec2Isabelle
  imports Main "HOL-Library.Multiset"
begin

section \<open>Strings and truthiness\<close>

text \<open>
  Source strings are modelled as \<open>string\<close>. \<open>isWhiteSpace\<close> lists the characters that
  \<^verbatim>\<open>String.prototype.trim\<close> strips, as far as they fit into one \<open>char\<close>:
  TAB, LF, VT, FF, CR, SPACE and NBSP.
\<close>

definition isWhiteSpace :: "char \<Rightarrow> bool" where
  "isWhiteSpace c =
     (c \<in> set [CHR 0x09, CHR 0x0A, CHR 0x0B, CHR 0x0C, CHR 0x0D, CHR 0x20, CHR 0xA0])"

definition trim :: "string \<Rightarrow> string" where
  "trim s = rev (dropWhile isWhiteSpace (rev (dropWhile isWhiteSpace s)))"

text \<open>\<^verbatim>\<open>!x\<close> for an optional string: undefined, null and the empty string are falsy.\<close>

definition falsy :: "string option \<Rightarrow> bool" where
  "falsy x = (case x of None \<Rightarrow> True | Some s \<Rightarrow> s = [])"

text \<open>\<^verbatim>\<open>s.includes(sub)\<close>: \<open>sub\<close> occurs in \<open>s\<close> as a contiguous run.\<close>

fun str_includes :: "string \<Rightarrow> string \<Rightarrow> bool" where
  "str_includes [] sub = (sub = [])"
| "str_includes (c # cs) sub = (take (length sub) (c # cs) = sub \<or> str_includes cs sub)"

section \<open>The Publication entity\<close>

datatype PublicationStatus = DRAFT | IN_REVIEW | APPROVED | PUBLISHED | REJECTED

text \<open>The enumeration's string values, as template strings print them.\<close>

fun statusName :: "PublicationStatus \<Rightarrow> string" where
  "statusName DRAFT = ''DRAFT''"
| "statusName IN_REVIEW = ''IN_REVIEW''"
| "statusName APPROVED = ''APPROVED''"
| "statusName PUBLISHED = ''PUBLISHED''"
| "statusName REJECTED = ''REJECTED''"

text \<open>
  A row of the \<^verbatim>\<open>publications\<close> table (classes \<^verbatim>\<open>BaseWork\<close> and \<^verbatim>\<open>Publication\<close>).
  The primary key \<^verbatim>\<open>id\<close> is the field \<open>pid\<close> and \<^verbatim>\<open>keywords\<close> is
  \<open>pkeywords\<close>; a nullable column is an option (\<open>None\<close> is NULL); dates are
  milliseconds.
\<close>

record Publication =
  pid :: string
  title :: string
  content :: string
  status :: PublicationStatus
  createdAt :: nat
  updatedAt :: nat
  authorId :: string
  authorName :: "string option"
  authorEmail :: "string option"
  abstract_text :: "string option"
  pkeywords :: "string list option"
  reviewCount :: int
  reviewNotes :: "string option"
  isVisible :: bool

text \<open>\<^verbatim>\<open>Partial<Publication>\<close>: what the service hands to the repository to insert or update.\<close>

record PartialPublication =
  title_opt :: "string option"
  content_opt :: "string option"
  status_opt :: "PublicationStatus option"
  authorId_opt :: "string option"
  authorName_opt :: "string option"
  authorEmail_opt :: "string option"
  abstract_text_opt :: "string option"
  keywords_opt :: "string list option"
  reviewCount_opt :: "int option"
  reviewNotes_opt :: "string option"
  isVisible_opt :: "bool option"

definition emptyPartial :: PartialPublication where
  "emptyPartial =
     \<lparr>title_opt = None, content_opt = None, status_opt = None, authorId_opt = None,
      authorName_opt = None, authorEmail_opt = None, abstract_text_opt = None,
      keywords_opt = None, reviewCount_opt = None, reviewNotes_opt = None,
      isVisible_opt = None\<rparr>"

definition canBeEdited :: "Publication \<Rightarrow> bool" where
  "canBeEdited this = (status this = DRAFT \<or> status this = IN_REVIEW)"

fun validTransitions :: "PublicationStatus \<Rightarrow> PublicationStatus list" where
  "validTransitions DRAFT = [IN_REVIEW, REJECTED]"
| "validTransitions IN_REVIEW = [APPROVED, REJECTED, DRAFT]"
| "validTransitions APPROVED = [PUBLISHED]"
| "validTransitions PUBLISHED = []"
| "validTransitions REJECTED = [DRAFT]"

definition canTransitionToStatus :: "Publication \<Rightarrow> PublicationStatus \<Rightarrow> bool" where
  "canTransitionToStatus this newStatus = (newStatus \<in> set (validTransitions (status this)))"

section \<open>Errors\<close>

text \<open>
  Every failure of the source is \<^verbatim>\<open>throw new Error(message)\<close>. The constructor records
  which kind of check threw: a validator or a required-field check (\<open>ValidationError\<close>), a
  lookup that found nothing (\<open>NotFoundError\<close>), the state machine
  (\<open>IllegalTransitionError\<close>), or the repository (\<open>InternalError\<close>). The argument is the
  message of the source.
\<close>

datatype error =
    ValidationError string
  | NotFoundError string
  | IllegalTransitionError string
  | InternalError string

fun message :: "error \<Rightarrow> string" where
  "message (ValidationError m) = m"
| "message (NotFoundError m) = m"
| "message (IllegalTransitionError m) = m"
| "message (InternalError m) = m"

section \<open>State validators and their facade\<close>

datatype StateValidator =
  ToReviewValidator | ToApprovedValidator | ToPublishedValidator | ToRejectedValidator

fun validate :: "StateValidator \<Rightarrow> Publication \<Rightarrow> PublicationStatus \<Rightarrow> error + unit" where
  "validate ToReviewValidator publication newStatus =
     (if newStatus \<noteq> IN_REVIEW then Inr ()
      else if title publication = [] \<or> length (trim (title publication)) = 0
      then Inl (ValidationError ''Title is required for review'')
      else if content publication = [] \<or> length (trim (content publication)) = 0
      then Inl (ValidationError ''Content is required for review'')
      else if status publication \<noteq> DRAFT \<and> status publication \<noteq> REJECTED
      then Inl (ValidationError ''Only DRAFT or REJECTED publications can go to REVIEW'')
      else Inr ())"
| "validate ToApprovedValidator publication newStatus =
     (if newStatus \<noteq> APPROVED then Inr ()
      else if status publication \<noteq> IN_REVIEW
      then Inl (ValidationError ''Only IN_REVIEW publications can be APPROVED'')
      else if (case reviewNotes publication of
                 None \<Rightarrow> True
               | Some notes \<Rightarrow> notes = [] \<or> length (trim notes) = 0)
      then Inl (ValidationError ''Review notes are required for approval'')
      else Inr ())"
| "validate ToPublishedValidator publication newStatus =
     (if newStatus \<noteq> PUBLISHED then Inr ()
      else if status publication \<noteq> APPROVED
      then Inl (ValidationError ''Only APPROVED publications can be PUBLISHED'')
      else Inr ())"
| "validate ToRejectedValidator publication newStatus =
     (if newStatus \<noteq> REJECTED then Inr ()
      else if status publication = PUBLISHED
      then Inl (ValidationError ''Published publications cannot be REJECTED'')
      else if (case reviewNotes publication of
                 None \<Rightarrow> True
               | Some notes \<Rightarrow> notes = [] \<or> length (trim notes) = 0)
      then Inl (ValidationError ''Review notes are required for rejection'')
      else Inr ())"

record StateValidationFacade =
  validators :: "StateValidator list"

definition newStateValidationFacade :: StateValidationFacade where
  "newStateValidationFacade =
     \<lparr>validators =
        [ToReviewValidator, ToApprovedValidator, ToPublishedValidator, ToRejectedValidator]\<rparr>"

text \<open>The \<^verbatim>\<open>for ... of\<close> loop of \<^verbatim>\<open>validateTransition\<close>: the first throw ends it.\<close>

fun runValidators :: "StateValidator list \<Rightarrow> Publication \<Rightarrow> PublicationStatus \<Rightarrow> error + unit" where
  "runValidators [] publication newStatus = Inr ()"
| "runValidators (validator # rest) publication newStatus =
     (case validate validator publication newStatus of
        Inl e \<Rightarrow> Inl e
      | Inr _ \<Rightarrow> runValidators rest publication newStatus)"

definition validateTransition ::
  "StateValidationFacade \<Rightarrow> Publication \<Rightarrow> PublicationStatus \<Rightarrow> error + unit" where
  "validateTransition this publication newStatus =
     runValidators (validators this) publication newStatus"


section \<open>The repository\<close>

text \<open>
  The table is a map from primary keys to rows. The object-relational mapper is a library
  outside the repository; its operations are modelled by what their SQL does to the table:
  \<^verbatim>\<open>findOneBy\<close> reads a row, \<^verbatim>\<open>update(id, data)\<close> sets the columns present in
  \<^verbatim>\<open>data\<close> and refreshes the \<^verbatim>\<open>@UpdateDateColumn\<close>, \<^verbatim>\<open>save\<close> of a new entity
  inserts a row with the generated key, both dates, and the column defaults.
  \<open>now\<close> is the clock and \<open>newId\<close> the key the database generates.
\<close>

type_synonym table = "string \<rightharpoonup> Publication"

definition findById :: "table \<Rightarrow> string \<Rightarrow> Publication option" where
  "findById db i = db i"

definition setColumns :: "PartialPublication \<Rightarrow> Publication \<Rightarrow> Publication" where
  "setColumns d row =
     row\<lparr>title := (case title_opt d of None \<Rightarrow> title row | Some v \<Rightarrow> v),
         content := (case content_opt d of None \<Rightarrow> content row | Some v \<Rightarrow> v),
         status := (case status_opt d of None \<Rightarrow> status row | Some v \<Rightarrow> v),
         authorId := (case authorId_opt d of None \<Rightarrow> authorId row | Some v \<Rightarrow> v),
         authorName := (case authorName_opt d of None \<Rightarrow> authorName row | Some v \<Rightarrow> Some v),
         authorEmail := (case authorEmail_opt d of None \<Rightarrow> authorEmail row | Some v \<Rightarrow> Some v),
         abstract_text :=
           (case abstract_text_opt d of None \<Rightarrow> abstract_text row | Some v \<Rightarrow> Some v),
         pkeywords := (case keywords_opt d of None \<Rightarrow> pkeywords row | Some v \<Rightarrow> Some v),
         reviewCount := (case reviewCount_opt d of None \<Rightarrow> reviewCount row | Some v \<Rightarrow> v),
         reviewNotes := (case reviewNotes_opt d of None \<Rightarrow> reviewNotes row | Some v \<Rightarrow> Some v),
         isVisible := (case isVisible_opt d of None \<Rightarrow> isVisible row | Some v \<Rightarrow> v)\<rparr>"

definition update ::
  "nat \<Rightarrow> table \<Rightarrow> string \<Rightarrow> PartialPublication \<Rightarrow> Publication option \<times> table" where
  "update now db i d =
     (let db' = (case db i of
                   None \<Rightarrow> db
                 | Some row \<Rightarrow> db(i \<mapsto> (setColumns d row)\<lparr>updatedAt := now\<rparr>))
      in (findById db' i, db'))"

definition updateStatus ::
  "nat \<Rightarrow> table \<Rightarrow> string \<Rightarrow> PublicationStatus \<Rightarrow> string option
     \<Rightarrow> Publication option \<times> table" where
  "updateStatus now db i newStatus notes =
     (let updateData = emptyPartial\<lparr>status_opt := Some newStatus\<rparr>;
          updateData = (if falsy notes then updateData
                        else updateData\<lparr>reviewNotes_opt := notes\<rparr>)
      in update now db i updateData)"

subsection \<open>Column types\<close>

text \<open>
  The INSERT hands every value to a typed column of the postgres table, as the
  \<^verbatim>\<open>@Column\<close> decorators of the entity declare it. The database is outside the
  repository; what it does with a value is modelled per column type:
  \<^item> a character value must not hold the NUL character;
  \<^item> \<^verbatim>\<open>varchar(n)\<close> rejects a value of more than \<open>n\<close> characters, unless the excess is
    all spaces, and then stores the first \<open>n\<close> characters;
  \<^item> \<^verbatim>\<open>uuid\<close> parses its input (an optional pair of braces, sixteen bytes of two hex
    digits each, an optional hyphen after every second byte but the last) and stores it in
    lower case, hyphenated 8-4-4-4-12;
  \<^item> \<^verbatim>\<open>int\<close> holds 32-bit signed integers;
  \<^item> \<^verbatim>\<open>simple-array\<close> is a text column holding the elements joined by commas, and is
    split at the commas when read.
\<close>

definition hasNul :: "string \<Rightarrow> bool" where
  "hasNul s = (CHR 0x00 \<in> set s)"

definition varcharOk :: "nat \<Rightarrow> string \<Rightarrow> bool" where
  "varcharOk n s =
     (\<not> hasNul s \<and> (length s \<le> n \<or> list_all (\<lambda>c. c = CHR 0x20) (drop n s)))"

definition varcharStored :: "nat \<Rightarrow> string \<Rightarrow> string" where
  "varcharStored n s = take n s"

definition isxdigit :: "char \<Rightarrow> bool" where
  "isxdigit c = (c \<in> set ''0123456789abcdefABCDEF'')"

definition lowerHex :: "char \<Rightarrow> char" where
  "lowerHex c =
     (if c = CHR ''A'' then CHR ''a'' else if c = CHR ''B'' then CHR ''b''
      else if c = CHR ''C'' then CHR ''c'' else if c = CHR ''D'' then CHR ''d''
      else if c = CHR ''E'' then CHR ''e'' else if c = CHR ''F'' then CHR ''f''
      else c)"

text \<open>
  The loop of the uuid parser over the byte indices: two hex digits per byte, then a hyphen
  is skipped if one follows an odd byte that is not the last. The result is the hex digits
  read and the rest of the input.
\<close>

fun uuidBytes :: "nat list \<Rightarrow> string \<Rightarrow> (string \<times> string) option" where
  "uuidBytes [] src = Some ([], src)"
| "uuidBytes (i # indices) src =
     (case src of
        a # b # rest \<Rightarrow>
          if isxdigit a \<and> isxdigit b
          then (case uuidBytes indices
                       (if take 1 rest = ''-'' \<and> i mod 2 = 1 \<and> i < 15 then drop 1 rest
                        else rest) of
                  None \<Rightarrow> None
                | Some (digits, rest') \<Rightarrow> Some (a # b # digits, rest'))
          else None
      | _ \<Rightarrow> None)"

definition string_to_uuid :: "string \<Rightarrow> string option" where
  "string_to_uuid source =
     (let braces = (take 1 source = ''{'');
          src = (if braces then drop 1 source else source)
      in case uuidBytes [0..<16] src of
           None \<Rightarrow> None
         | Some (digits, rest) \<Rightarrow>
             if (if braces then rest = ''}'' else rest = []) then Some digits else None)"

definition uuid_out :: "string \<Rightarrow> string" where
  "uuid_out digits =
     (let d = map lowerHex digits
      in take 8 d @ ''-'' @ take 4 (drop 8 d) @ ''-'' @ take 4 (drop 12 d) @ ''-''
           @ take 4 (drop 16 d) @ ''-'' @ drop 20 d)"

definition uuidStored :: "string \<Rightarrow> string" where
  "uuidStored a = (case string_to_uuid a of None \<Rightarrow> a | Some digits \<Rightarrow> uuid_out digits)"

fun simpleArrayToString :: "string list \<Rightarrow> string" where
  "simpleArrayToString [] = []"
| "simpleArrayToString [k] = k"
| "simpleArrayToString (k # k' # ks) = k @ '','' @ simpleArrayToString (k' # ks)"

fun splitComma :: "string \<Rightarrow> string list" where
  "splitComma [] = [[]]"
| "splitComma (c # cs) =
     (if c = CHR '','' then [] # splitComma cs
      else (case splitComma cs of
              [] \<Rightarrow> [[c]]
            | piece # pieces \<Rightarrow> (c # piece) # pieces))"

definition stringToSimpleArray :: "string \<Rightarrow> string list" where
  "stringToSimpleArray s = (if s = [] then [] else splitComma s)"

text \<open>Whether the database takes the entity as a row of \<^verbatim>\<open>publications\<close>.\<close>

definition databaseAccepts :: "Publication \<Rightarrow> bool" where
  "databaseAccepts e =
     (varcharOk 255 (title e)
      \<and> \<not> hasNul (content e)
      \<and> string_to_uuid (authorId e) \<noteq> None
      \<and> (case authorName e of None \<Rightarrow> True | Some n \<Rightarrow> varcharOk 255 n)
      \<and> (case authorEmail e of None \<Rightarrow> True | Some m \<Rightarrow> varcharOk 255 m)
      \<and> (case abstract_text e of None \<Rightarrow> True | Some a \<Rightarrow> \<not> hasNul a)
      \<and> (case pkeywords e of None \<Rightarrow> True | Some ks \<Rightarrow> \<not> hasNul (simpleArrayToString ks))
      \<and> - 2147483648 \<le> reviewCount e \<and> reviewCount e \<le> 2147483647
      \<and> (case reviewNotes e of None \<Rightarrow> True | Some n \<Rightarrow> \<not> hasNul n))"

text \<open>The row as the table holds it, for an entity the database accepts.\<close>

definition storedRow :: "Publication \<Rightarrow> Publication" where
  "storedRow e =
     e\<lparr>title := varcharStored 255 (title e),
       authorId := uuidStored (authorId e),
       authorName := map_option (varcharStored 255) (authorName e),
       authorEmail := map_option (varcharStored 255) (authorEmail e),
       pkeywords :=
         map_option (\<lambda>ks. stringToSimpleArray (simpleArrayToString ks)) (pkeywords e)\<rparr>"

text \<open>
  \<^verbatim>\<open>create\<close>: the INSERT. A NOT NULL column without default that the entity leaves unset,
  or a value that its column does not take, makes the database reject the row: the query
  throws and nothing is stored. Otherwise \<^verbatim>\<open>save\<close> returns the entity with the generated
  key, the dates and the defaults filled in, and the table holds the row.
\<close>

definition create ::
  "nat \<Rightarrow> string \<Rightarrow> table \<Rightarrow> PartialPublication \<Rightarrow> (error + Publication) \<times> table" where
  "create now newId db d =
     (case (title_opt d, content_opt d, status_opt d, authorId_opt d) of
        (Some t, Some c, Some s, Some a) \<Rightarrow>
          (let entity = \<lparr>pid = newId, title = t, content = c, status = s,
                         createdAt = now, updatedAt = now, authorId = a,
                         authorName = authorName_opt d, authorEmail = authorEmail_opt d,
                         abstract_text = abstract_text_opt d, pkeywords = keywords_opt d,
                         reviewCount = (case reviewCount_opt d of None \<Rightarrow> 0 | Some n \<Rightarrow> n),
                         reviewNotes = reviewNotes_opt d,
                         isVisible = (case isVisible_opt d of None \<Rightarrow> True | Some b \<Rightarrow> b)\<rparr>
           in if databaseAccepts entity
              then (Inr entity, db(newId \<mapsto> storedRow entity))
              else (Inl (InternalError ''QueryFailedError: value rejected by its column''), db))
      | _ \<Rightarrow> (Inl (InternalError ''null value violates not-null constraint''), db))"

section \<open>Data transfer objects and the mapper\<close>

record CreatePublicationDTO =
  c_title :: string
  c_content :: string
  c_abstract_text :: "string option"
  c_authorId :: string
  c_keywords :: "string list option"

record ChangePublicationStatusDTO =
  cs_status :: PublicationStatus
  cs_reviewNotes :: "string option"

record PublicationResponseDTO =
  dto_id :: string
  dto_title :: string
  dto_content :: string
  dto_status :: PublicationStatus
  dto_authorId :: string
  dto_authorName :: "string option"
  dto_authorEmail :: "string option"
  dto_abstract_text :: "string option"
  dto_keywords :: "string list"
  dto_reviewCount :: int
  dto_reviewNotes :: "string option"
  dto_isVisible :: bool
  dto_createdAt :: nat
  dto_updatedAt :: nat

definition toDTO :: "Publication \<Rightarrow> PublicationResponseDTO" where
  "toDTO publication =
     \<lparr>dto_id = pid publication,
      dto_title = title publication,
      dto_content = content publication,
      dto_status = status publication,
      dto_authorId = authorId publication,
      dto_authorName = authorName publication,
      dto_authorEmail = authorEmail publication,
      dto_abstract_text = abstract_text publication,
      dto_keywords = (case pkeywords publication of None \<Rightarrow> [] | Some ks \<Rightarrow> ks),
      dto_reviewCount = reviewCount publication,
      dto_reviewNotes = reviewNotes publication,
      dto_isVisible = isVisible publication,
      dto_createdAt = createdAt publication,
      dto_updatedAt = updatedAt publication\<rparr>"

section \<open>The client of the Authors service\<close>

record AuthorData =
  a_id :: string
  firstName :: string
  lastName :: string
  email :: string
  specialization :: "string option"

record AuthorResponse =
  success :: bool
  data :: AuthorData

text \<open>A resolved HTTP response: \<^verbatim>\<open>response.status\<close> and \<^verbatim>\<open>response.data\<close>.\<close>

record AxiosResponse =
  http_status :: nat
  body :: AuthorResponse

text \<open>Why a request promise rejects: timeout, connection failure, or a status outside 2xx.\<close>

datatype AxiosError = Timeout | ConnectionRefused | BadStatus nat

text \<open>
  The network effects of the client, in order: each HTTP request with its path, and each
  \<^verbatim>\<open>setTimeout\<close> wait with its delay in milliseconds. The remote service answers a
  request from the trace so far and the path.
\<close>

datatype event = Request string | Sleep nat

type_synonym remote = "event list \<Rightarrow> string \<Rightarrow> AxiosError + AxiosResponse"

record AuthorsServiceClient =
  baseURL :: string
  timeout :: nat
  maxRetries :: nat

text \<open>The constructor; its arguments are the two environment variables it reads.\<close>

definition newAuthorsServiceClient :: "string option \<Rightarrow> nat option \<Rightarrow> AuthorsServiceClient" where
  "newAuthorsServiceClient envUrl envTimeout =
     \<lparr>baseURL = (case envUrl of
                   None \<Rightarrow> ''http://authors-service:3001''
                 | Some u \<Rightarrow> if u = [] then ''http://authors-service:3001'' else u),
      timeout = (case envTimeout of None \<Rightarrow> 5000 | Some t \<Rightarrow> t),
      maxRetries = 3\<rparr>"

definition axiosGet ::
  "remote \<Rightarrow> string \<Rightarrow> event list \<Rightarrow> (AxiosError + AxiosResponse) \<times> event list" where
  "axiosGet srv url tr = (srv tr url, tr @ [Request url])"

definition sleep :: "nat \<Rightarrow> event list \<Rightarrow> event list" where
  "sleep delay tr = tr @ [Sleep delay]"

function retryRequest ::
  "AuthorsServiceClient \<Rightarrow> (event list \<Rightarrow> (AxiosError + 'a) \<times> event list) \<Rightarrow> nat
     \<Rightarrow> event list \<Rightarrow> (AxiosError + 'a) \<times> event list" where
  "retryRequest this requestFn attempt tr =
     (case requestFn tr of
        (Inr response, tr') \<Rightarrow> (Inr response, tr')
      | (Inl err, tr') \<Rightarrow>
          if attempt < maxRetries this
          then (let delay = 2 ^ attempt * 1000
                in retryRequest this requestFn (attempt + 1) (sleep delay tr'))
          else (Inl err, tr'))"
  by pat_completeness auto
termination
  by (relation "measure (\<lambda>(this, requestFn, attempt, tr). maxRetries this - attempt)") auto

definition authorExists ::
  "AuthorsServiceClient \<Rightarrow> remote \<Rightarrow> string \<Rightarrow> event list \<Rightarrow> bool \<times> event list" where
  "authorExists this srv authorId' tr =
     (case retryRequest this (axiosGet srv (''/authors/'' @ authorId')) 1 tr of
        (Inr response, tr') \<Rightarrow> (http_status response = 200, tr')
      | (Inl err, tr') \<Rightarrow> (False, tr'))"

definition getAuthor ::
  "AuthorsServiceClient \<Rightarrow> remote \<Rightarrow> string \<Rightarrow> event list
     \<Rightarrow> AuthorData option \<times> event list" where
  "getAuthor this srv authorId' tr =
     (case retryRequest this (axiosGet srv (''/authors/'' @ authorId')) 1 tr of
        (Inr response, tr') \<Rightarrow> (Some (data (body response)), tr')
      | (Inl err, tr') \<Rightarrow> (None, tr'))"

section \<open>The publication service\<close>

definition createPublication ::
  "AuthorsServiceClient \<Rightarrow> remote \<Rightarrow> nat \<Rightarrow> string \<Rightarrow> CreatePublicationDTO
     \<Rightarrow> table \<times> event list \<Rightarrow> (error + PublicationResponseDTO) \<times> table \<times> event list" where
  "createPublication client srv now newId dto st =
     (case st of (db, tr) \<Rightarrow>
      if c_title dto = [] \<or> c_content dto = [] \<or> c_authorId dto = []
      then (Inl (ValidationError ''title, content, and authorId are required''), db, tr)
      else
        (case authorExists client srv (c_authorId dto) tr of (exists, tr1) \<Rightarrow>
         if \<not> exists
         then (Inl (NotFoundError (''Author with id '' @ c_authorId dto @ '' not found'')),
               db, tr1)
         else
           (case getAuthor client srv (c_authorId dto) tr1 of (authorData, tr2) \<Rightarrow>
            let publication =
                  emptyPartial
                    \<lparr>title_opt := Some (c_title dto),
                     content_opt := Some (c_content dto),
                     authorId_opt := Some (c_authorId dto),
                     abstract_text_opt :=
                       Some (case c_abstract_text dto of
                               None \<Rightarrow> []
                             | Some a \<Rightarrow> if a = [] then [] else a),
                     keywords_opt :=
                       Some (case c_keywords dto of None \<Rightarrow> [] | Some ks \<Rightarrow> ks),
                     status_opt := Some DRAFT\<rparr>;
                publication =
                  (case authorData of
                     None \<Rightarrow> publication
                   | Some author \<Rightarrow>
                       publication
                         \<lparr>authorName_opt := Some (firstName author @ '' '' @ lastName author),
                          authorEmail_opt := Some (email author)\<rparr>)
            in (case create now newId db publication of
                  (Inl e, db') \<Rightarrow> (Inl e, db', tr2)
                | (Inr savedPublication, db') \<Rightarrow> (Inr (toDTO savedPublication), db', tr2)))))"

text \<open>
  \<^verbatim>\<open>changePublicationStatus\<close>. The entity read by \<open>findById\<close> is a local object;
  \<open>publication'\<close> is that object after \<^verbatim>\<open>publication.reviewCount++\<close>. The repository
  call receives the id, the new status and the notes of the request.
\<close>

definition changePublicationStatus ::
  "nat \<Rightarrow> table \<Rightarrow> string \<Rightarrow> ChangePublicationStatusDTO
     \<Rightarrow> (error + PublicationResponseDTO) \<times> table" where
  "changePublicationStatus now db i dto =
     (case findById db i of
        None \<Rightarrow> (Inl (NotFoundError (''Publication with id '' @ i @ '' not found'')), db)
      | Some publication \<Rightarrow>
          (case validateTransition newStateValidationFacade publication (cs_status dto) of
             Inl e \<Rightarrow> (Inl e, db)
           | Inr _ \<Rightarrow>
               if \<not> canTransitionToStatus publication (cs_status dto)
               then (Inl (IllegalTransitionError
                       (''Cannot transition from '' @ statusName (status publication)
                          @ '' to '' @ statusName (cs_status dto))), db)
               else
                 (let publication' =
                        (if cs_status dto = IN_REVIEW
                         then publication\<lparr>reviewCount := reviewCount publication + 1\<rparr>
                         else publication)
                  in (case updateStatus now db i (cs_status dto) (cs_reviewNotes dto) of
                        (None, db') \<Rightarrow>
                          (Inl (InternalError ''Failed to update publication status''), db')
                      | (Some updated, db') \<Rightarrow> (Inr (toDTO updated), db')))))"

section \<open>The controller's classification of errors\<close>

text \<open>\<^verbatim>\<open>handleError\<close>: the HTTP status and the error code chosen from the message.\<close>

definition handleError :: "error \<Rightarrow> nat \<times> string" where
  "handleError e =
     (if str_includes (message e) ''not found'' then (404, ''NOT_FOUND'')
      else if str_includes (message e) ''required'' then (400, ''VALIDATION_ERROR'')
      else if str_includes (message e) ''cannot be edited'' then (400, ''INVALID_STATE'')
      else if str_includes (message e) ''Cannot transition'' then (400, ''INVALID_TRANSITION'')
      else (500, ''INTERNAL_ERROR''))"

section \<open>Auxiliary definitions\<close>

text \<open>The validator whose first line lets the requested status through to its checks.\<close>

definition validatorFor :: "PublicationStatus \<Rightarrow> StateValidator option" where
  "validatorFor s =
     (case s of
        DRAFT \<Rightarrow> None
      | IN_REVIEW \<Rightarrow> Some ToReviewValidator
      | APPROVED \<Rightarrow> Some ToApprovedValidator
      | PUBLISHED \<Rightarrow> Some ToPublishedValidator
      | REJECTED \<Rightarrow> Some ToRejectedValidator)"

text \<open>A sample row, as the creation of a publication leaves it.\<close>

definition draftPaper :: Publication where
  "draftPaper =
     \<lparr>pid = ''p1'', title = ''Blockchain Security'', content = ''Security analysis'',
      status = DRAFT, createdAt = 1000, updatedAt = 1000, authorId = ''a1'',
      authorName = Some ''Ada Lovelace'', authorEmail = Some ''ada@example.org'',
      abstract_text = Some [], pkeywords = Some [], reviewCount = 0,
      reviewNotes = None, isVisible = True\<rparr>"

text \<open>
  A remote that answers the first request of a run and times out ever after, and a creation
  request for it.
\<close>

definition flakyRemote :: remote where
  "flakyRemote tr url =
     (if tr = []
      then Inr \<lparr>http_status = 200,
                body = \<lparr>success = True,
                         data = \<lparr>a_id = ''a1'', firstName = ''Ada'', lastName = ''Lovelace'',
                                  email = ''ada@example.org'', specialization = None\<rparr>\<rparr>\<rparr>
      else Inl Timeout)"

definition sampleRequest :: CreatePublicationDTO where
  "sampleRequest =
     \<lparr>c_title = ''Blockchain Security'', c_content = ''Security analysis'',
      c_abstract_text = None, c_authorId = ''123E4567-e89b-12d3-a456-426614174000'',
      c_keywords = None\<rparr>"

text \<open>The same request with a title of 256 characters.\<close>

definition longTitleRequest :: CreatePublicationDTO where
  "longTitleRequest = sampleRequest\<lparr>c_title := replicate 256 (CHR ''a'')\<rparr>"

section \<open>The state machine\<close>

text \<open>
  Claim C4. \<open>canTransitionToStatus\<close> is a function of the current and the requested status
  only. It is true exactly for the edges DRAFT to IN_REVIEW, DRAFT to REJECTED, IN_REVIEW to
  APPROVED, IN_REVIEW to REJECTED, IN_REVIEW to DRAFT, APPROVED to PUBLISHED and REJECTED to
  DRAFT, and false for every other pair; a PUBLISHED record has no outgoing transition.
\<close>

theorem canTransitionToStatus_edges:
  "canTransitionToStatus p to =
     ((status p, to) \<in> {(DRAFT, IN_REVIEW), (DRAFT, REJECTED),
                         (IN_REVIEW, APPROVED), (IN_REVIEW, REJECTED), (IN_REVIEW, DRAFT),
                         (APPROVED, PUBLISHED), (REJECTED, DRAFT)})
   \<and> canTransitionToStatus (p\<lparr>status := PUBLISHED\<rparr>) to = False"
  unfolding canTransitionToStatus_def
  by (cases "status p"; cases to) simp_all

section \<open>The validation facade\<close>

lemma validate_other_target:
  "validatorFor s \<noteq> Some v \<Longrightarrow> validate v p s = Inr ()"
  by (cases v; cases s) (simp_all add: validatorFor_def)

lemma runValidators_single:
  "runValidators vs p s =
     (case validatorFor s of
        None \<Rightarrow> Inr ()
      | Some v \<Rightarrow> if v \<in> set vs then validate v p s else Inr ())"
proof (induction vs)
  case Nil
  show ?case by (simp split: option.splits)
next
  case (Cons a vs)
  show ?case
  proof (cases "validatorFor s = Some a")
    case True
    then show ?thesis using Cons.IH
      by (cases "validate a p s") (simp_all)
  next
    case False
    then have "validate a p s = Inr ()" by (rule validate_other_target)
    with False show ?thesis using Cons.IH
      by (auto split: option.splits)
  qed
qed

text \<open>
  Claim C6. For every record and requested status, the facade's outcome is the outcome of
  the one validator whose target is the requested status, and success when DRAFT is
  requested. This holds for the validators in any order: a facade whose list is a
  permutation of the constructed one gives the same outcome, which is a single error or
  success.
\<close>

theorem facade_outcome_is_single_validator:
  assumes "mset (validators facade) = mset (validators newStateValidationFacade)"
  shows "validateTransition facade p s =
           (case s of
              DRAFT \<Rightarrow> Inr ()
            | IN_REVIEW \<Rightarrow> validate ToReviewValidator p s
            | APPROVED \<Rightarrow> validate ToApprovedValidator p s
            | PUBLISHED \<Rightarrow> validate ToPublishedValidator p s
            | REJECTED \<Rightarrow> validate ToRejectedValidator p s)"
proof -
  from assms have "set (validators facade) = set (validators newStateValidationFacade)"
    by (rule mset_eq_setD)
  then have "set (validators facade) = UNIV"
    by (auto simp: newStateValidationFacade_def intro: StateValidator.exhaust)
  then show ?thesis
    unfolding validateTransition_def runValidators_single
    by (cases s) (simp_all add: validatorFor_def)
qed

theorem facade_outcome_is_single_validator_witness:
  "mset (validators \<lparr>validators = [ToRejectedValidator, ToPublishedValidator,
                                     ToApprovedValidator, ToReviewValidator]\<rparr>)
     = mset (validators newStateValidationFacade)
   \<and> validateTransition \<lparr>validators = [ToRejectedValidator, ToPublishedValidator,
                                        ToApprovedValidator, ToReviewValidator]\<rparr>
        draftPaper APPROVED
     = Inl (ValidationError ''Only IN_REVIEW publications can be APPROVED'')"
proof -
  have h: "mset (validators \<lparr>validators = [ToRejectedValidator, ToPublishedValidator,
                                     ToApprovedValidator, ToReviewValidator]\<rparr>)
     = mset (validators newStateValidationFacade)"
    by (simp add: newStateValidationFacade_def)
  from facade_outcome_is_single_validator [OF h, of draftPaper APPROVED] h show ?thesis
    by (simp add: draftPaper_def)
qed

section \<open>Changing the status of a publication\<close>

lemma updateStatus_found:
  "db i = Some p \<Longrightarrow>
   updateStatus now db i s notes =
     (Some (p\<lparr>status := s,
              reviewNotes := (if falsy notes then reviewNotes p else notes),
              updatedAt := now\<rparr>),
      db(i \<mapsto> p\<lparr>status := s,
                  reviewNotes := (if falsy notes then reviewNotes p else notes),
                  updatedAt := now\<rparr>))"
  by (cases "notes")
     (simp_all add: updateStatus_def update_def findById_def setColumns_def emptyPartial_def
        falsy_def Let_def)

lemma changePublicationStatus_found:
  assumes "db i = Some p"
  shows "changePublicationStatus now db i dto =
     (case validateTransition newStateValidationFacade p (cs_status dto) of
        Inl e \<Rightarrow> (Inl e, db)
      | Inr u \<Rightarrow>
          if canTransitionToStatus p (cs_status dto)
          then (Inr (toDTO (p\<lparr>status := cs_status dto,
                               reviewNotes := (if falsy (cs_reviewNotes dto) then reviewNotes p
                                               else cs_reviewNotes dto),
                               updatedAt := now\<rparr>)),
                db(i \<mapsto> p\<lparr>status := cs_status dto,
                            reviewNotes := (if falsy (cs_reviewNotes dto) then reviewNotes p
                                            else cs_reviewNotes dto),
                            updatedAt := now\<rparr>))
          else (Inl (IllegalTransitionError
                  (''Cannot transition from '' @ statusName (status p)
                     @ '' to '' @ statusName (cs_status dto))), db))"
  using assms
  by (simp add: changePublicationStatus_def findById_def updateStatus_found Let_def
        split: sum.splits)

lemma validate_kind: "validate v p s = Inl e \<Longrightarrow> \<exists>m. e = ValidationError m"
  by (cases v) (auto split: if_splits)

lemma runValidators_kind: "runValidators vs p s = Inl e \<Longrightarrow> \<exists>m. e = ValidationError m"
  by (induction vs) (auto split: sum.splits dest: validate_kind)

text \<open>
  Claim C5. Every status-change request that fails, in a validator, in the state machine or
  otherwise, leaves the table exactly as it was before the request.
\<close>

theorem failed_status_change_leaves_table:
  assumes "fst (changePublicationStatus now db i dto) = Inl e"
  shows "snd (changePublicationStatus now db i dto) = db"
proof (cases "db i")
  case None
  then show ?thesis by (simp add: changePublicationStatus_def findById_def)
next
  case (Some p)
  with assms show ?thesis
    by (simp add: changePublicationStatus_found split: sum.splits if_splits)
qed

theorem failed_status_change_leaves_table_witness:
  "fst (changePublicationStatus 2000 [''p1'' \<mapsto> draftPaper] ''p1''
          \<lparr>cs_status = PUBLISHED, cs_reviewNotes = Some ''go''\<rparr>)
     = Inl (ValidationError ''Only APPROVED publications can be PUBLISHED'')
   \<and> snd (changePublicationStatus 2000 [''p1'' \<mapsto> draftPaper] ''p1''
          \<lparr>cs_status = PUBLISHED, cs_reviewNotes = Some ''go''\<rparr>) = [''p1'' \<mapsto> draftPaper]"
proof -
  have a: "fst (changePublicationStatus 2000 [''p1'' \<mapsto> draftPaper] ''p1''
          \<lparr>cs_status = PUBLISHED, cs_reviewNotes = Some ''go''\<rparr>)
     = Inl (ValidationError ''Only APPROVED publications can be PUBLISHED'')"
    by (simp add: changePublicationStatus_found validateTransition_def
          newStateValidationFacade_def draftPaper_def)
  from failed_status_change_leaves_table [OF a] a show ?thesis by simp
qed

text \<open>
  Claim C9. The transition graph has no self-loop: \<open>canTransitionToStatus\<close> is false from
  any record's status to that same status. Hence a request that names the current status of
  the record fails, whatever the record holds, with a validation error or an illegal
  transition error, and the table stays as it was.
\<close>

theorem no_self_transition:
  assumes "findById db i = Some p" and "cs_status dto = status p"
  shows "(\<forall>q. \<not> canTransitionToStatus q (status q))
         \<and> (\<exists>m. fst (changePublicationStatus now db i dto) = Inl (ValidationError m)
                \<or> fst (changePublicationStatus now db i dto) = Inl (IllegalTransitionError m))
         \<and> snd (changePublicationStatus now db i dto) = db"
proof -
  have loop: "\<not> canTransitionToStatus q (status q)" for q
    unfolding canTransitionToStatus_def by (cases "status q") simp_all
  from assms(1) have found: "db i = Some p" by (simp add: findById_def)
  show ?thesis
  proof (cases "validateTransition newStateValidationFacade p (status p)")
    case (Inl e)
    then obtain m where "e = ValidationError m"
      unfolding validateTransition_def by (blast dest: runValidators_kind)
    with Inl loop found assms(2) show ?thesis
      by (simp add: changePublicationStatus_found)
  next
    case (Inr u)
    with loop found assms(2) show ?thesis
      by (simp add: changePublicationStatus_found)
  qed
qed

theorem no_self_transition_witness:
  "findById [''p1'' \<mapsto> draftPaper] ''p1'' = Some draftPaper
   \<and> cs_status \<lparr>cs_status = DRAFT, cs_reviewNotes = Some ''again''\<rparr> = status draftPaper
   \<and> fst (changePublicationStatus 2000 [''p1'' \<mapsto> draftPaper] ''p1''
            \<lparr>cs_status = DRAFT, cs_reviewNotes = Some ''again''\<rparr>)
       = Inl (IllegalTransitionError ''Cannot transition from DRAFT to DRAFT'')"
proof -
  have a: "findById [''p1'' \<mapsto> draftPaper] ''p1'' = Some draftPaper"
    by (simp add: findById_def)
  have b: "cs_status \<lparr>cs_status = DRAFT, cs_reviewNotes = Some ''again''\<rparr> = status draftPaper"
    by (simp add: draftPaper_def)
  have c: "validateTransition newStateValidationFacade draftPaper DRAFT = Inr ()"
    by (simp add: validateTransition_def newStateValidationFacade_def)
  from no_self_transition [OF a b, of 2000] a b c show ?thesis
    by (simp add: changePublicationStatus_found findById_def draftPaper_def
          canTransitionToStatus_def)
qed

text \<open>
  Claim C10. When the notes handed to \<open>updateStatus\<close> are falsy (absent or the empty
  string), the update carries the new status only: the stored \<open>reviewNotes\<close> keeps its
  previous value, and the row differs from the old one in \<open>status\<close> and in the refreshed
  \<open>updatedAt\<close> alone.
\<close>

theorem falsy_notes_not_written:
  assumes "falsy rn" and "findById db i = Some p"
  shows "updateStatus now db i s rn = update now db i (emptyPartial\<lparr>status_opt := Some s\<rparr>)
         \<and> (\<exists>p'. updateStatus now db i s rn = (Some p', db(i \<mapsto> p'))
                 \<and> reviewNotes p' = reviewNotes p \<and> status p' = s
                 \<and> p' = p\<lparr>status := s, updatedAt := now\<rparr>)"
  using assms
  by (simp add: updateStatus_def update_def findById_def setColumns_def emptyPartial_def Let_def)

theorem falsy_notes_not_written_witness:
  "falsy (Some []) \<and> findById [''p1'' \<mapsto> draftPaper\<lparr>reviewNotes := Some ''keep''\<rparr>] ''p1''
       = Some (draftPaper\<lparr>reviewNotes := Some ''keep''\<rparr>)
   \<and> reviewNotes (the (snd (updateStatus 2000 [''p1'' \<mapsto> draftPaper\<lparr>reviewNotes := Some ''keep''\<rparr>]
         ''p1'' IN_REVIEW (Some [])) ''p1'')) = Some ''keep''"
proof -
  have a: "falsy (Some [])" by (simp add: falsy_def)
  have b: "findById [''p1'' \<mapsto> draftPaper\<lparr>reviewNotes := Some ''keep''\<rparr>] ''p1''
       = Some (draftPaper\<lparr>reviewNotes := Some ''keep''\<rparr>)" by (simp add: findById_def)
  from falsy_notes_not_written [OF a b, of 2000 IN_REVIEW, THEN conjunct2]
  obtain p' where
    "updateStatus 2000 [''p1'' \<mapsto> draftPaper\<lparr>reviewNotes := Some ''keep''\<rparr>] ''p1'' IN_REVIEW
       (Some []) = (Some p', [''p1'' \<mapsto> draftPaper\<lparr>reviewNotes := Some ''keep''\<rparr>](''p1'' \<mapsto> p'))"
    and "reviewNotes p' = reviewNotes (draftPaper\<lparr>reviewNotes := Some ''keep''\<rparr>)"
    by blast
  with a b show ?thesis by simp
qed


text \<open>
  Claim C1. The claim: from DRAFT or REJECTED, with title and content present, a request for
  IN_REVIEW succeeds and the persisted \<open>reviewCount\<close> grows by one. The code on two such
  requests: for a DRAFT row with \<open>reviewCount = 0\<close> the request succeeds, and both the
  answer and the stored row still hold \<open>reviewCount = 0\<close>, since the increment is made on
  the local entity and \<open>updateStatus\<close> writes the status and the notes only; for a
  REJECTED row the validator passes and the state machine, which has no edge from REJECTED
  to IN_REVIEW, refuses.
\<close>

theorem in_review_request_divergence:
  "(\<exists>r db'. changePublicationStatus 2000 [''p1'' \<mapsto> draftPaper] ''p1''
               \<lparr>cs_status = IN_REVIEW, cs_reviewNotes = Some ''Enviado para revision''\<rparr>
             = (Inr r, db')
           \<and> dto_status r = IN_REVIEW
           \<and> reviewCount draftPaper = 0
           \<and> dto_reviewCount r = 0
           \<and> map_option reviewCount (db' ''p1'') = Some 0)
   \<and> fst (changePublicationStatus 2000
            [''p1'' \<mapsto> draftPaper\<lparr>status := REJECTED, reviewNotes := Some ''No cumple''\<rparr>] ''p1''
            \<lparr>cs_status = IN_REVIEW, cs_reviewNotes = Some ''Resubmitted''\<rparr>)
       = Inl (IllegalTransitionError ''Cannot transition from REJECTED to IN_REVIEW'')"
  by (simp add: changePublicationStatus_found validateTransition_def newStateValidationFacade_def
        canTransitionToStatus_def draftPaper_def toDTO_def falsy_def trim_def isWhiteSpace_def)

text \<open>
  Claim C2. The claim: a request for APPROVED succeeds exactly when the record is IN_REVIEW
  and the request carries non-empty notes. The code checks the notes stored in the row, not
  those of the request: a row sent to review without notes is refused approval although the
  request carries notes, and a row that already holds notes is approved by a request
  without any.
\<close>

theorem approval_checks_stored_notes:
  "snd (changePublicationStatus 2000 [''p1'' \<mapsto> draftPaper] ''p1''
          \<lparr>cs_status = IN_REVIEW, cs_reviewNotes = None\<rparr>)
     = [''p1'' \<mapsto> draftPaper\<lparr>status := IN_REVIEW, updatedAt := 2000\<rparr>]
   \<and> changePublicationStatus 3000
        [''p1'' \<mapsto> draftPaper\<lparr>status := IN_REVIEW, updatedAt := 2000\<rparr>] ''p1''
        \<lparr>cs_status = APPROVED, cs_reviewNotes = Some ''Aprobado por comite''\<rparr>
     = (Inl (ValidationError ''Review notes are required for approval''),
        [''p1'' \<mapsto> draftPaper\<lparr>status := IN_REVIEW, updatedAt := 2000\<rparr>])
   \<and> (\<exists>r db'. changePublicationStatus 3000
                 [''p1'' \<mapsto> draftPaper\<lparr>status := IN_REVIEW,
                                        reviewNotes := Some ''En revision''\<rparr>] ''p1''
                 \<lparr>cs_status = APPROVED, cs_reviewNotes = None\<rparr>
               = (Inr r, db')
             \<and> dto_status r = APPROVED)"
  by (simp add: changePublicationStatus_found validateTransition_def newStateValidationFacade_def
        canTransitionToStatus_def draftPaper_def toDTO_def falsy_def trim_def isWhiteSpace_def)

text \<open>
  Claim C3. The claim: from REJECTED, a request for PUBLISHED fails with the illegal
  transition error. The code runs the validators first, so the request fails in
  \<open>ToPublishedValidator\<close> with its validation error, which \<open>handleError\<close> answers as an
  internal error; the state machine's message would be answered as an invalid transition.
\<close>

theorem rejected_to_published_error_kind:
  "changePublicationStatus 2000
     [''p1'' \<mapsto> draftPaper\<lparr>status := REJECTED, reviewNotes := Some ''No cumple''\<rparr>] ''p1''
     \<lparr>cs_status = PUBLISHED, cs_reviewNotes = Some ''Publicado''\<rparr>
     = (Inl (ValidationError ''Only APPROVED publications can be PUBLISHED''),
        [''p1'' \<mapsto> draftPaper\<lparr>status := REJECTED, reviewNotes := Some ''No cumple''\<rparr>])
   \<and> handleError (ValidationError ''Only APPROVED publications can be PUBLISHED'')
     = (500, ''INTERNAL_ERROR'')
   \<and> handleError (IllegalTransitionError ''Cannot transition from REJECTED to PUBLISHED'')
     = (400, ''INVALID_TRANSITION'')"
  by (simp add: changePublicationStatus_found validateTransition_def newStateValidationFacade_def
        canTransitionToStatus_def draftPaper_def handleError_def)

section \<open>The retrying client\<close>

lemma axiosGet_fails:
  assumes "\<forall>tr u. isl (srv tr u)"
  shows "\<exists>e. axiosGet srv url tr = (Inl e, tr @ [Request url])"
proof -
  from assms have "isl (srv tr url)" by blast
  then obtain e where "srv tr url = Inl e" by (cases "srv tr url") simp_all
  then show ?thesis by (simp add: axiosGet_def)
qed

lemma retryRequest_all_fail:
  assumes "\<forall>tr u. isl (srv tr u)"
  shows "\<exists>e. retryRequest this (axiosGet srv url) attempt tr =
           (Inl e, tr @ Request url #
                     concat (map (\<lambda>a. [Sleep (2 ^ a * 1000), Request url])
                               [attempt..<maxRetries this]))"
proof (induction "maxRetries this - attempt" arbitrary: attempt tr)
  case 0
  from axiosGet_fails [OF assms] obtain e where
    e: "axiosGet srv url tr = (Inl e, tr @ [Request url])" by blast
  from 0 have "\<not> attempt < maxRetries this" by simp
  with e show ?case
    by (subst retryRequest.simps) simp
next
  case (Suc n)
  from axiosGet_fails [OF assms] obtain e where
    e: "axiosGet srv url tr = (Inl e, tr @ [Request url])" by blast
  from Suc.hyps(2) have lt: "attempt < maxRetries this" by simp
  from Suc.hyps(2) have "n = maxRetries this - (attempt + 1)" by simp
  from Suc.hyps(1) [OF this] obtain e' where
    "retryRequest this (axiosGet srv url) (attempt + 1)
        (sleep (2 ^ attempt * 1000) (tr @ [Request url])) =
       (Inl e', sleep (2 ^ attempt * 1000) (tr @ [Request url]) @ Request url #
                 concat (map (\<lambda>a. [Sleep (2 ^ a * 1000), Request url])
                           [attempt + 1..<maxRetries this]))"
    by blast
  with e lt show ?case
    by (subst retryRequest.simps) (simp add: sleep_def upt_conv_Cons Let_def)
qed

text \<open>
  Claim C7. Against a remote that fails every request, \<open>authorExists\<close> and
  \<open>getAuthor\<close> of the constructed client (\<open>maxRetries = 3\<close>) each issue exactly three
  requests, wait 2000 ms after the first and 4000 ms after the second, and then return
  \<open>False\<close> and no value; both are total and have no error result.
\<close>

theorem failing_remote_three_attempts:
  assumes "\<forall>tr u. isl (srv tr u)"
  shows "authorExists (newAuthorsServiceClient envUrl envTimeout) srv a tr =
           (False, tr @ [Request (''/authors/'' @ a), Sleep 2000,
                         Request (''/authors/'' @ a), Sleep 4000,
                         Request (''/authors/'' @ a)])
         \<and> getAuthor (newAuthorsServiceClient envUrl envTimeout) srv a tr =
           (None, tr @ [Request (''/authors/'' @ a), Sleep 2000,
                        Request (''/authors/'' @ a), Sleep 4000,
                        Request (''/authors/'' @ a)])"
proof -
  have three: "[1..<maxRetries (newAuthorsServiceClient envUrl envTimeout)] = [1, 2]"
    by (simp add: newAuthorsServiceClient_def upt_conv_Cons)
  from retryRequest_all_fail [OF assms, of "newAuthorsServiceClient envUrl envTimeout"
      "''/authors/'' @ a" 1 tr]
  obtain e where
    "retryRequest (newAuthorsServiceClient envUrl envTimeout)
       (axiosGet srv (''/authors/'' @ a)) 1 tr =
     (Inl e, tr @ [Request (''/authors/'' @ a), Sleep 2000,
                   Request (''/authors/'' @ a), Sleep 4000,
                   Request (''/authors/'' @ a)])"
    unfolding three by auto
  then show ?thesis
    by (simp add: authorExists_def getAuthor_def)
qed

theorem failing_remote_three_attempts_witness:
  "(\<forall>tr u. isl ((\<lambda>tr u. Inl Timeout :: AxiosError + AxiosResponse) tr u))
   \<and> authorExists (newAuthorsServiceClient None None) (\<lambda>tr u. Inl Timeout) ''a1'' [] =
       (False, [Request ''/authors/a1'', Sleep 2000, Request ''/authors/a1'', Sleep 4000,
                Request ''/authors/a1''])
   \<and> getAuthor (newAuthorsServiceClient None None) (\<lambda>tr u. Inl Timeout) ''a1'' [] =
       (None, [Request ''/authors/a1'', Sleep 2000, Request ''/authors/a1'', Sleep 4000,
               Request ''/authors/a1''])"
proof -
  have h: "\<forall>tr u. isl ((\<lambda>tr u. Inl Timeout :: AxiosError + AxiosResponse) tr u)" by simp
  from failing_remote_three_attempts [OF h, of None None "''a1''" "[]"] show ?thesis
    by simp
qed

section \<open>Creating a publication\<close>

lemma exists_flaky:
  "authorExists (newAuthorsServiceClient None None) flakyRemote
     ''123E4567-e89b-12d3-a456-426614174000'' []
     = (True, [Request ''/authors/123E4567-e89b-12d3-a456-426614174000''])"
  by (simp add: authorExists_def retryRequest.simps axiosGet_def flakyRemote_def)

lemma get_flaky:
  "getAuthor (newAuthorsServiceClient None None) flakyRemote
     ''123E4567-e89b-12d3-a456-426614174000''
     [Request ''/authors/123E4567-e89b-12d3-a456-426614174000'']
     = (None, [Request ''/authors/123E4567-e89b-12d3-a456-426614174000'',
               Request ''/authors/123E4567-e89b-12d3-a456-426614174000'', Sleep 2000,
               Request ''/authors/123E4567-e89b-12d3-a456-426614174000'', Sleep 4000,
               Request ''/authors/123E4567-e89b-12d3-a456-426614174000''])"
  by (simp add: getAuthor_def retryRequest.simps axiosGet_def flakyRemote_def sleep_def
        newAuthorsServiceClient_def Let_def)

lemma sample_uuid:
  "string_to_uuid ''123E4567-e89b-12d3-a456-426614174000''
     = Some ''123E4567e89b12d3a456426614174000''"
  by code_simp

text \<open>
  Claim C8, as the claim states it, fails: a request with a title of 256 characters, an
  author that exists and a fetch that yields no value is refused by the
  \<^verbatim>\<open>varchar(255)\<close> column, so the creation throws and nothing is stored.
\<close>

theorem creation_long_title_counterexample:
  "c_title longTitleRequest \<noteq> [] \<and> c_content longTitleRequest \<noteq> []
   \<and> c_authorId longTitleRequest \<noteq> []
   \<and> fst (authorExists (newAuthorsServiceClient None None) flakyRemote
             (c_authorId longTitleRequest) []) = True
   \<and> fst (getAuthor (newAuthorsServiceClient None None) flakyRemote
             (c_authorId longTitleRequest)
             (snd (authorExists (newAuthorsServiceClient None None) flakyRemote
                     (c_authorId longTitleRequest) []))) = None
   \<and> fst (createPublication (newAuthorsServiceClient None None) flakyRemote 1000 ''p1''
            longTitleRequest (Map.empty, []))
       = Inl (InternalError ''QueryFailedError: value rejected by its column'')
   \<and> fst (snd (createPublication (newAuthorsServiceClient None None) flakyRemote 1000 ''p1''
                 longTitleRequest (Map.empty, []))) = Map.empty"
proof -
  have i: "c_authorId longTitleRequest = ''123E4567-e89b-12d3-a456-426614174000''"
    and t: "c_title longTitleRequest = replicate 256 (CHR ''a'')"
    and c: "c_content longTitleRequest = ''Security analysis''"
    by (simp_all add: longTitleRequest_def sampleRequest_def)
  have long: "\<not> varcharOk 255 (replicate 256 (CHR ''a''))"
    by (simp add: varcharOk_def)
  show ?thesis
    unfolding createPublication_def i t c
    by (simp add: exists_flaky get_flaky create_def emptyPartial_def databaseAccepts_def long
          Let_def)
qed

text \<open>
  Claim C8, amended. For a creation request with non-empty title, content and author id
  whose values the columns take (a title of at most 255 characters, an author id in uuid
  syntax, no NUL character in title, content, abstract or keywords), when the existence
  check answers true and the fetch of the author's data yields no value, the creation
  succeeds: a row with status DRAFT and without author name and email is stored under the
  new key, and the answer shows the same.
\<close>

theorem creation_survives_failed_enrichment:
  assumes "c_title dto \<noteq> []" and "c_content dto \<noteq> []" and "c_authorId dto \<noteq> []"
    and "length (c_title dto) \<le> 255" and "\<not> hasNul (c_title dto)"
    and "\<not> hasNul (c_content dto)"
    and "string_to_uuid (c_authorId dto) \<noteq> None"
    and "case c_abstract_text dto of None \<Rightarrow> True | Some a \<Rightarrow> \<not> hasNul a"
    and "case c_keywords dto of None \<Rightarrow> True | Some ks \<Rightarrow> \<not> hasNul (simpleArrayToString ks)"
    and "fst (authorExists client srv (c_authorId dto) tr) = True"
    and "fst (getAuthor client srv (c_authorId dto)
                (snd (authorExists client srv (c_authorId dto) tr))) = None"
  shows "\<exists>saved row tr'.
           createPublication client srv now newId dto (db, tr)
             = (Inr (toDTO saved), db(newId \<mapsto> row), tr')
           \<and> status row = DRAFT \<and> authorName row = None \<and> authorEmail row = None
           \<and> title row = c_title dto \<and> content row = c_content dto
           \<and> authorId row = uuidStored (c_authorId dto)
           \<and> dto_status (toDTO saved) = DRAFT
           \<and> dto_authorName (toDTO saved) = None \<and> dto_authorEmail (toDTO saved) = None"
proof -
  obtain ex tr1 where e: "authorExists client srv (c_authorId dto) tr = (ex, tr1)"
    by (cases "authorExists client srv (c_authorId dto) tr")
  obtain ad tr2 where g: "getAuthor client srv (c_authorId dto) tr1 = (ad, tr2)"
    by (cases "getAuthor client srv (c_authorId dto) tr1")
  from assms(10) e have ex: "ex" by simp
  from assms(11) e g have ad: "ad = None" by simp
  let ?entity = "\<lparr>pid = newId, title = c_title dto, content = c_content dto, status = DRAFT,
                   createdAt = now, updatedAt = now, authorId = c_authorId dto,
                   authorName = None, authorEmail = None,
                   abstract_text =
                     Some (case c_abstract_text dto of
                             None \<Rightarrow> []
                           | Some a \<Rightarrow> if a = [] then [] else a),
                   pkeywords = Some (case c_keywords dto of None \<Rightarrow> [] | Some ks \<Rightarrow> ks),
                   reviewCount = 0, reviewNotes = None, isVisible = True\<rparr>"
  from assms(4-9) have accepted: "databaseAccepts ?entity"
    by (auto simp: databaseAccepts_def varcharOk_def hasNul_def split: option.splits)
  from assms(1-3) e g ex ad accepted
  have "createPublication client srv now newId dto (db, tr)
          = (Inr (toDTO ?entity), db(newId \<mapsto> storedRow ?entity), tr2)"
    by (simp add: createPublication_def create_def emptyPartial_def Let_def)
  moreover from assms(4)
  have "status (storedRow ?entity) = DRAFT \<and> authorName (storedRow ?entity) = None
      \<and> authorEmail (storedRow ?entity) = None
      \<and> title (storedRow ?entity) = c_title dto \<and> content (storedRow ?entity) = c_content dto
      \<and> authorId (storedRow ?entity) = uuidStored (c_authorId dto)"
    by (simp add: storedRow_def varcharStored_def)
  moreover have "dto_status (toDTO ?entity) = DRAFT
      \<and> dto_authorName (toDTO ?entity) = None \<and> dto_authorEmail (toDTO ?entity) = None"
    by (simp add: toDTO_def)
  ultimately show ?thesis by blast
qed

theorem creation_survives_failed_enrichment_witness:
  "c_title sampleRequest \<noteq> [] \<and> c_content sampleRequest \<noteq> [] \<and> c_authorId sampleRequest \<noteq> []
   \<and> length (c_title sampleRequest) \<le> 255 \<and> \<not> hasNul (c_title sampleRequest)
   \<and> \<not> hasNul (c_content sampleRequest)
   \<and> string_to_uuid (c_authorId sampleRequest) \<noteq> None
   \<and> fst (authorExists (newAuthorsServiceClient None None) flakyRemote
             (c_authorId sampleRequest) []) = True
   \<and> fst (getAuthor (newAuthorsServiceClient None None) flakyRemote (c_authorId sampleRequest)
             (snd (authorExists (newAuthorsServiceClient None None) flakyRemote
                     (c_authorId sampleRequest) []))) = None
   \<and> (\<exists>saved row tr'.
         createPublication (newAuthorsServiceClient None None) flakyRemote 1000 ''p1''
             sampleRequest (Map.empty, [])
           = (Inr (toDTO saved), [''p1'' \<mapsto> row], tr')
         \<and> status row = DRAFT \<and> authorName row = None \<and> authorEmail row = None
         \<and> title row = ''Blockchain Security''
         \<and> authorId row = ''123e4567-e89b-12d3-a456-426614174000''
         \<and> dto_status (toDTO saved) = DRAFT \<and> dto_authorName (toDTO saved) = None)"
proof -
  have i: "c_authorId sampleRequest = ''123E4567-e89b-12d3-a456-426614174000''"
    by (simp add: sampleRequest_def)
  have a: "c_title sampleRequest \<noteq> []" and b: "c_content sampleRequest \<noteq> []"
    and c: "c_authorId sampleRequest \<noteq> []"
    and l: "length (c_title sampleRequest) \<le> 255"
    and n1: "\<not> hasNul (c_title sampleRequest)" and n2: "\<not> hasNul (c_content sampleRequest)"
    and n3: "case c_abstract_text sampleRequest of None \<Rightarrow> True | Some a \<Rightarrow> \<not> hasNul a"
    and n4: "case c_keywords sampleRequest of None \<Rightarrow> True
             | Some ks \<Rightarrow> \<not> hasNul (simpleArrayToString ks)"
    by (simp_all add: sampleRequest_def hasNul_def)
  have u: "string_to_uuid (c_authorId sampleRequest) \<noteq> None"
    unfolding i sample_uuid by simp
  have s: "uuidStored (c_authorId sampleRequest) = ''123e4567-e89b-12d3-a456-426614174000''"
    unfolding i uuidStored_def sample_uuid by (simp add: uuid_out_def lowerHex_def)
  have t: "c_title sampleRequest = ''Blockchain Security''" by (simp add: sampleRequest_def)
  have d: "fst (authorExists (newAuthorsServiceClient None None) flakyRemote
             (c_authorId sampleRequest) []) = True"
    unfolding i exists_flaky by simp
  have e: "fst (getAuthor (newAuthorsServiceClient None None) flakyRemote (c_authorId sampleRequest)
             (snd (authorExists (newAuthorsServiceClient None None) flakyRemote
                     (c_authorId sampleRequest) []))) = None"
    unfolding i exists_flaky by (simp add: get_flaky)
  from creation_survives_failed_enrichment [OF a b c l n1 n2 u n3 n4 d e,
      of 1000 "''p1''" Map.empty]
  obtain saved row tr' where
    "createPublication (newAuthorsServiceClient None None) flakyRemote 1000 ''p1''
             sampleRequest (Map.empty, [])
           = (Inr (toDTO saved), [''p1'' \<mapsto> row], tr')"
    and "status row = DRAFT" and "authorName row = None" and "authorEmail row = None"
    and "title row = c_title sampleRequest"
    and "authorId row = uuidStored (c_authorId sampleRequest)"
    and "dto_status (toDTO saved) = DRAFT" and "dto_authorName (toDTO saved) = None"
    by blast
  with a b c l n1 n2 u d e s t show ?thesis by auto
qed

end
